theory Spec2Isabelle
  imports Main
begin

section \<open>Python values and exceptions\<close>

text \<open>
  The services are Python. A \<open>str\<close> is carried as the list of its UTF-8 bytes, so
  \<open>bytes\<close> and \<open>str\<close> share the type \<open>string\<close> and the empty one is \<open>[]\<close> in both.
  The values of a JSON body or of a \<open>Dict[str, Any]\<close> are \<open>pyval\<close>; a dict is the list
  of its items, whose keys are distinct; a finite float \<open>m * 2^e\<close> is carried as
  \<open>PyFloat m e\<close> and is never computed with.
\<close>

type_synonym bytes = string

datatype pyval =
    PyNone
  | PyBool bool
  | PyInt int
  | PyFloat int int
  | PyStr string
  | PyList "pyval list"
  | PyDict "(string \<times> pyval) list"

text \<open>
  Every exception below is a subclass of Python's \<open>Exception\<close>, so an
  \<open>except Exception\<close> clause catches each of them; \<open>HTTPException\<close> is FastAPI's,
  with its status code and detail. \<open>External\<close> is an error raised inside a third-party
  client (Redis, OpenAI, Supabase, Telegram, Selenium), named by its class.
\<close>

datatype exn =
    KeyError string
  | TypeError
  | AttributeError
  | ValueError
  | IndexError
  | UnboundLocalError string
  | UnicodeDecodeError
  | DataError
  | HTTPException nat string
  | External string

text \<open>Python's truth test, as \<open>if x\<close> and \<open>not x\<close> apply it.\<close>

fun truthy :: "pyval \<Rightarrow> bool" where
  "truthy PyNone = False"
| "truthy (PyBool b) = b"
| "truthy (PyInt i) = (i \<noteq> 0)"
| "truthy (PyFloat m e) = (m \<noteq> 0)"
| "truthy (PyStr s) = (s \<noteq> [])"
| "truthy (PyList xs) = (xs \<noteq> [])"
| "truthy (PyDict kvs) = (kvs \<noteq> [])"

text \<open>\<open>d[k]\<close>: a missing key raises \<open>KeyError\<close>, a value that is no dict \<open>TypeError\<close>.\<close>

fun py_getitem :: "pyval \<Rightarrow> string \<Rightarrow> exn + pyval" where
  "py_getitem (PyDict kvs) k =
     (case map_of kvs k of None \<Rightarrow> Inl (KeyError k) | Some v \<Rightarrow> Inr v)"
| "py_getitem _ k = Inl TypeError"

text \<open>\<open>d.get(k)\<close> on a dict: \<open>None\<close> for a missing key.\<close>

definition dict_get :: "(string \<times> pyval) list \<Rightarrow> string \<Rightarrow> pyval" where
  "dict_get kvs k = (case map_of kvs k of None \<Rightarrow> PyNone | Some v \<Rightarrow> v)"

text \<open>
  The response FastAPI gives for what an endpoint function does: a returned body is
  answered with 200, a raised \<open>HTTPException\<close> with its own status code, any other
  exception with 500.
\<close>

fun http_status :: "exn + 'a \<Rightarrow> nat" where
  "http_status (Inr body) = 200"
| "http_status (Inl (HTTPException code detail)) = code"
| "http_status (Inl _) = 500"

section \<open>The bot service's HTTP endpoints (app/main.py)\<close>

text \<open>
  What the endpoints call and this repository does not define: \<open>analyzer.analyze\<close>
  (its module is not among the sources), Python's \<open>str\<close> of an exception, the three
  health probes and the environment variables.
\<close>

record api_env =
  analyzer_analyze :: "pyval \<Rightarrow> exn + pyval"
  exc_text :: "exn \<Rightarrow> string"
  supabase_probe :: "exn option"
  redis_ping :: "exn option"
  telegram_bot_attr :: "exn + bool"
  getenv :: "string \<Rightarrow> string option"

text \<open>The \<open>try\<close> block of \<open>analyze_sentiment\<close> in app/main.py.\<close>

definition main_analyze_sentiment_body :: "api_env \<Rightarrow> (string \<times> pyval) list \<Rightarrow> exn + pyval" where
  "main_analyze_sentiment_body env data =
     (let symbol = dict_get data ''symbol'' in
      if \<not> truthy symbol then Inl (HTTPException 400 ''Symbol is required'')
      else (case analyzer_analyze env symbol of
              Inl e \<Rightarrow> Inl e
            | Inr analysis \<Rightarrow> Inr (PyDict [(''symbol'', symbol), (''sentiment'', analysis)])))"

text \<open>
  The endpoint: \<open>except Exception as e\<close> around that block raises
  \<open>HTTPException(status_code=500, detail=str(e))\<close> for whatever the block raised.
\<close>

definition main_analyze_sentiment :: "api_env \<Rightarrow> (string \<times> pyval) list \<Rightarrow> exn + pyval" where
  "main_analyze_sentiment env data =
     (case main_analyze_sentiment_body env data of
        Inl e \<Rightarrow> Inl (HTTPException 500 (exc_text env e))
      | Inr body \<Rightarrow> Inr body)"

text \<open>\<open>bool(os.getenv(name))\<close>.\<close>

definition env_flag :: "api_env \<Rightarrow> string \<Rightarrow> pyval" where
  "env_flag env name = PyBool (case getenv env name of None \<Rightarrow> False | Some v \<Rightarrow> v \<noteq> [])"

text \<open>
  The \<open>try\<close> block of \<open>health_check\<close>: each probe has its own \<open>try\<close>, and the Telegram
  one leaves \<open>unknown\<close> when \<open>telegram_app.bot\<close> is falsy.
\<close>

definition health_check_body :: "api_env \<Rightarrow> exn + pyval" where
  "health_check_body env =
     (let supabase_status = (case supabase_probe env of
                               None \<Rightarrow> ''healthy'' | Some e \<Rightarrow> ''unhealthy'');
          redis_status = (case redis_ping env of
                            None \<Rightarrow> ''healthy'' | Some e \<Rightarrow> ''unhealthy'');
          telegram_status = (case telegram_bot_attr env of
                               Inr b \<Rightarrow> (if b then ''healthy'' else ''unknown'')
                             | Inl e \<Rightarrow> ''unhealthy'')
      in Inr (PyDict
           [(''status'', PyStr ''healthy''),
            (''services'', PyDict
               [(''supabase'', PyStr supabase_status),
                (''redis'', PyStr redis_status),
                (''telegram'', PyStr telegram_status)]),
            (''environment'', PyDict
               [(''REDIS_URL'', env_flag env ''REDIS_URL''),
                (''SUPABASE_URL'', env_flag env ''SUPABASE_URL''),
                (''TELEGRAM_BOT_TOKEN'', env_flag env ''TELEGRAM_BOT_TOKEN'')])]))"

definition health_check :: "api_env \<Rightarrow> exn + pyval" where
  "health_check env =
     (case health_check_body env of
        Inl e \<Rightarrow> Inr (PyDict [(''status'', PyStr ''healthy''),
                              (''message'', PyStr ''Basic health check'')])
      | Inr body \<Rightarrow> Inr body)"

section \<open>The trading bot (app/services/trading_bot.py)\<close>

subsection \<open>Strings\<close>

text \<open>The non-ASCII characters of the message texts, as their UTF-8 bytes.\<close>

definition nl :: string where
  "nl = [CHR 0x0A]"

definition emoji_bell :: string where
  "emoji_bell = [CHR 0xF0, CHR 0x9F, CHR 0x94, CHR 0x94]"

definition emoji_chart :: string where
  "emoji_chart = [CHR 0xF0, CHR 0x9F, CHR 0x93, CHR 0x8A]"

definition emoji_warning :: string where
  "emoji_warning = [CHR 0xE2, CHR 0x9A, CHR 0xA0, CHR 0xEF, CHR 0xB8, CHR 0x8F]"

definition bullet :: string where
  "bullet = [CHR 0xE2, CHR 0x80, CHR 0xA2]"

definition emoji_robot :: string where
  "emoji_robot = [CHR 0xF0, CHR 0x9F, CHR 0xA4, CHR 0x96]"

definition emoji_calendar :: string where
  "emoji_calendar = [CHR 0xF0, CHR 0x9F, CHR 0x93, CHR 0x85]"

definition emoji_cross :: string where
  "emoji_cross = [CHR 0xE2, CHR 0x9D, CHR 0x8C]"

text \<open>\<open>s.startswith(p)\<close>.\<close>

definition startswith :: "string \<Rightarrow> string \<Rightarrow> bool" where
  "startswith s p = (take (length p) s = p)"

text \<open>\<open>s.split(sep)\<close> for a one-character separator: every occurrence splits.\<close>

fun split_on :: "char \<Rightarrow> string \<Rightarrow> string list" where
  "split_on c [] = [[]]"
| "split_on c (x # xs) =
     (if x = c then [] # split_on c xs
      else (case split_on c xs of
              [] \<Rightarrow> [[x]]
            | p # ps \<Rightarrow> (x # p) # ps))"

subsection \<open>The clients the bot calls\<close>

datatype button = InlineKeyboardButton string string

text \<open>
  A call on the Telegram bot: \<open>send_message\<close> with chat, text, parse mode and reply
  markup, or \<open>send_photo\<close> with chat, photo and caption.
\<close>

datatype tg_call =
    SendMessage pyval string "string option" "button list list option"
  | SendPhoto pyval bytes string

text \<open>
  What the bot calls and this repository does not define, as it behaves during one
  call of a method of the bot (another call may meet another behaviour): Python's \<open>str\<close> of a value
  that is no string (\<open>fmt\<close>), which byte strings \<open>bytes.decode\<close> accepts, the Supabase
  query for a market, instrument and timeframe (the rows, or the error), whether the
  Redis commands fail, the contents of the choices the OpenAI completion returns for a
  user prompt (or the error), and whether a call on the Telegram bot fails.
\<close>

record bot_env =
  fmt :: "pyval \<Rightarrow> string"
  decodes :: "bytes \<Rightarrow> bool"
  supabase_query :: "pyval \<Rightarrow> pyval \<Rightarrow> pyval \<Rightarrow> exn + pyval list"
  redis_get_error :: "exn option"
  redis_setex_error :: "exn option"
  openai_create :: "string \<Rightarrow> exn + string option list"
  telegram :: "tg_call \<Rightarrow> exn option"

text \<open>
  The state the bot acts on: whether \<open>self._bot\<close> is set, the Redis database (each key
  with its value and the instant it expires), the user prompts of the completion
  requests issued so far, and the calls made on the Telegram bot so far.
\<close>

record world =
  bot_present :: bool
  redis_db :: "string \<Rightarrow> (bytes \<times> nat) option"
  llm_requests :: "string list"
  tg_calls :: "tg_call list"

text \<open>The value an f-string puts for \<open>{v}\<close>.\<close>

definition py_format :: "bot_env \<Rightarrow> pyval \<Rightarrow> string" where
  "py_format env v = (case v of PyStr s \<Rightarrow> s | _ \<Rightarrow> fmt env v)"

text \<open>The cache key and the user prompt of \<open>analyze_sentiment\<close>, lines 52 and 61.\<close>

abbreviation sentiment_key :: "bot_env \<Rightarrow> pyval \<Rightarrow> string" where
  "sentiment_key env symbol \<equiv> ''sentiment:'' @ py_format env symbol"

abbreviation sentiment_prompt :: "bot_env \<Rightarrow> pyval \<Rightarrow> string" where
  "sentiment_prompt env symbol \<equiv> ''Analyze '' @ py_format env symbol @ '' sentiment briefly''"

definition bytes_decode :: "bot_env \<Rightarrow> bytes \<Rightarrow> exn + string" where
  "bytes_decode env b = (if decodes env b then Inr b else Inl UnicodeDecodeError)"

text \<open>
  Redis \<open>GET\<close> at the instant \<open>now\<close>: the value of a key, which Redis keeps until the
  clock has passed the key's expiry. \<open>SETEX\<close> stores the value with the expiry
  \<open>now + ttl\<close>.
\<close>

definition redis_get :: "bot_env \<Rightarrow> world \<Rightarrow> nat \<Rightarrow> string \<Rightarrow> exn + bytes option" where
  "redis_get env w now key =
     (case redis_get_error env of
        Some e \<Rightarrow> Inl e
      | None \<Rightarrow> Inr (case redis_db w key of
                       None \<Rightarrow> None
                     | Some (v, expiry) \<Rightarrow> if now \<le> expiry then Some v else None))"

definition redis_setex :: "bot_env \<Rightarrow> world \<Rightarrow> nat \<Rightarrow> string \<Rightarrow> nat \<Rightarrow> string \<Rightarrow> exn option \<times> world" where
  "redis_setex env w now key ttl v =
     (case redis_setex_error env of
        Some e \<Rightarrow> (Some e, w)
      | None \<Rightarrow> (None, w\<lparr>redis_db := (redis_db w)(key \<mapsto> (v, now + ttl))\<rparr>))"

text \<open>
  \<open>self._bot.send_message(...)\<close> and \<open>self._bot.send_photo(...)\<close>: an unset
  \<open>self._bot\<close> is \<open>None\<close> and has no such attribute; otherwise the call is made, and
  recorded whether it fails or not.
\<close>

definition bot_call :: "bot_env \<Rightarrow> tg_call \<Rightarrow> world \<Rightarrow> (exn + unit) \<times> world" where
  "bot_call env c w =
     (if \<not> bot_present w then (Inl AttributeError, w)
      else (case telegram env c of Some e \<Rightarrow> Inl e | None \<Rightarrow> Inr (),
            w\<lparr>tg_calls := tg_calls w @ [c]\<rparr>))"

subsection \<open>match_subscribers\<close>

text \<open>\<open>[str(pref["user_id"]) for pref in response.data]\<close>.\<close>

fun user_ids :: "bot_env \<Rightarrow> pyval list \<Rightarrow> exn + string list" where
  "user_ids env [] = Inr []"
| "user_ids env (pref # rest) =
     (case py_getitem pref ''user_id'' of
        Inl e \<Rightarrow> Inl e
      | Inr u \<Rightarrow> (case user_ids env rest of
                    Inl e \<Rightarrow> Inl e
                  | Inr us \<Rightarrow> Inr (py_format env u # us)))"

definition match_subscribers_body :: "bot_env \<Rightarrow> pyval \<Rightarrow> exn + string list" where
  "match_subscribers_body env signal =
     (case py_getitem signal ''market'' of
        Inl e \<Rightarrow> Inl e
      | Inr market \<Rightarrow>
     (case py_getitem signal ''instrument'' of
        Inl e \<Rightarrow> Inl e
      | Inr instrument \<Rightarrow>
     (case py_getitem signal ''timeframe'' of
        Inl e \<Rightarrow> Inl e
      | Inr timeframe \<Rightarrow>
     (case supabase_query env market instrument timeframe of
        Inl e \<Rightarrow> Inl e
      | Inr rows \<Rightarrow> user_ids env rows))))"

definition match_subscribers :: "bot_env \<Rightarrow> pyval \<Rightarrow> exn + string list" where
  "match_subscribers env signal =
     (case match_subscribers_body env signal of
        Inl e \<Rightarrow> Inr []
      | Inr ids \<Rightarrow> Inr ids)"

subsection \<open>analyze_sentiment\<close>

text \<open>
  Lines 57 to 67, after a cache miss: the completion request (recorded as issued
  whether it succeeds or not), the first choice's content, the store with a 300 second
  expiry. A content that is \<open>None\<close> makes \<open>setex\<close> raise: the Redis client refuses to
  encode \<open>None\<close>.
\<close>

definition analyze_sentiment_miss :: "bot_env \<Rightarrow> nat \<Rightarrow> pyval \<Rightarrow> string \<Rightarrow> world \<Rightarrow> (exn + string) \<times> world" where
  "analyze_sentiment_miss env now symbol cache_key w =
     (let prompt = ''Analyze '' @ py_format env symbol @ '' sentiment briefly'';
          w1 = w\<lparr>llm_requests := llm_requests w @ [prompt]\<rparr>
      in case openai_create env prompt of
           Inl e \<Rightarrow> (Inl e, w1)
         | Inr choices \<Rightarrow>
             (case choices of
                [] \<Rightarrow> (Inl IndexError, w1)
              | content # others \<Rightarrow>
                  (case content of
                     None \<Rightarrow> (Inl (case redis_setex_error env of
                                      Some e \<Rightarrow> e | None \<Rightarrow> DataError), w1)
                   | Some sentiment \<Rightarrow>
                       (case redis_setex env w1 now cache_key 300 sentiment of
                          (Some e, w2) \<Rightarrow> (Inl e, w2)
                        | (None, w2) \<Rightarrow> (Inr sentiment, w2)))))"

text \<open>The \<open>try\<close> block: \<open>if cached\<close> holds for a value that is neither \<open>None\<close> nor empty.\<close>

definition analyze_sentiment_body :: "bot_env \<Rightarrow> nat \<Rightarrow> pyval \<Rightarrow> world \<Rightarrow> (exn + string) \<times> world" where
  "analyze_sentiment_body env now symbol w =
     (let cache_key = ''sentiment:'' @ py_format env symbol
      in case redis_get env w now cache_key of
           Inl e \<Rightarrow> (Inl e, w)
         | Inr cached \<Rightarrow>
             (case cached of
                None \<Rightarrow> analyze_sentiment_miss env now symbol cache_key w
              | Some c \<Rightarrow>
                  if c \<noteq> [] then (bytes_decode env c, w)
                  else analyze_sentiment_miss env now symbol cache_key w))"

definition analyze_sentiment :: "bot_env \<Rightarrow> nat \<Rightarrow> pyval \<Rightarrow> world \<Rightarrow> (exn + string) \<times> world" where
  "analyze_sentiment env now symbol w =
     (case analyze_sentiment_body env now symbol w of
        (Inl e, w') \<Rightarrow> (Inr ''Sentiment analysis unavailable'', w')
      | (Inr s, w') \<Rightarrow> (Inr s, w'))"

subsection \<open>send_signal_message\<close>

text \<open>The message text, lines 77 to 89; each \<open>signal[...]\<close> may raise.\<close>

definition signal_message :: "bot_env \<Rightarrow> pyval \<Rightarrow> string \<Rightarrow> exn + string" where
  "signal_message env signal sentiment =
     (case py_getitem signal ''symbol'' of
        Inl e \<Rightarrow> Inl e
      | Inr symbol \<Rightarrow>
     (case py_getitem signal ''action'' of
        Inl e \<Rightarrow> Inl e
      | Inr action \<Rightarrow>
     (case py_getitem signal ''price'' of
        Inl e \<Rightarrow> Inl e
      | Inr price \<Rightarrow>
          Inr (emoji_bell @ '' *TRADING SIGNAL*'' @ nl
               @ ''Symbol: '' @ py_format env symbol @ nl
               @ ''Action: '' @ py_format env action @ nl
               @ ''Price: '' @ py_format env price @ nl @ nl
               @ emoji_chart @ '' *SENTIMENT*'' @ nl
               @ sentiment @ nl @ nl
               @ emoji_warning @ '' *Risk Management*'' @ nl
               @ bullet @ '' Always use proper position sizing'' @ nl
               @ bullet @ '' Never risk more than 1-2% per trade'' @ nl
               @ bullet @ '' Multiple take profit levels recommended'' @ nl @ nl
               @ emoji_robot @ '' Generated by SigmaPips AI''))))"

text \<open>The inline keyboard, lines 92 to 109.\<close>

definition signal_keyboard :: "bot_env \<Rightarrow> pyval \<Rightarrow> exn + button list list" where
  "signal_keyboard env signal =
     (case py_getitem signal ''symbol'' of
        Inl e \<Rightarrow> Inl e
      | Inr symbol \<Rightarrow>
     (case py_getitem signal ''timeframe'' of
        Inl e \<Rightarrow> Inl e
      | Inr timeframe \<Rightarrow>
          Inr [[InlineKeyboardButton (emoji_chart @ '' Technical Analysis'')
                  (''chart_'' @ py_format env symbol @ ''_'' @ py_format env timeframe),
                InlineKeyboardButton (emoji_robot @ '' Market Sentiment'')
                  (''sentiment_'' @ py_format env symbol)],
               [InlineKeyboardButton (emoji_calendar @ '' Economic Calendar'')
                  (''calendar_'' @ py_format env symbol)]]))"

definition send_signal_message_body :: "bot_env \<Rightarrow> string \<Rightarrow> pyval \<Rightarrow> string \<Rightarrow> world \<Rightarrow> (exn + unit) \<times> world" where
  "send_signal_message_body env chat_id signal sentiment w =
     (case signal_message env signal sentiment of
        Inl e \<Rightarrow> (Inl e, w)
      | Inr message \<Rightarrow>
     (case signal_keyboard env signal of
        Inl e \<Rightarrow> (Inl e, w)
      | Inr keyboard \<Rightarrow>
          bot_call env (SendMessage (PyStr chat_id) message (Some ''Markdown'') (Some keyboard)) w))"

text \<open>The \<open>except Exception\<close> clause only logs.\<close>

definition send_signal_message :: "bot_env \<Rightarrow> string \<Rightarrow> pyval \<Rightarrow> string \<Rightarrow> world \<Rightarrow> (exn + unit) \<times> world" where
  "send_signal_message env chat_id signal sentiment w =
     (case send_signal_message_body env chat_id signal sentiment w of
        (Inl e, w') \<Rightarrow> (Inr (), w')
      | (Inr u, w') \<Rightarrow> (Inr (), w'))"

subsection \<open>process_signal\<close>

text \<open>The loop \<open>for chat_id in chat_ids\<close>.\<close>

fun send_to_all :: "bot_env \<Rightarrow> string list \<Rightarrow> pyval \<Rightarrow> string \<Rightarrow> world \<Rightarrow> (exn + unit) \<times> world" where
  "send_to_all env [] signal sentiment w = (Inr (), w)"
| "send_to_all env (chat_id # rest) signal sentiment w =
     (case send_signal_message env chat_id signal sentiment w of
        (Inl e, w') \<Rightarrow> (Inl e, w')
      | (Inr u, w') \<Rightarrow> send_to_all env rest signal sentiment w')"

text \<open>The \<open>except Exception\<close> clause logs and raises the same exception again.\<close>

definition process_signal :: "bot_env \<Rightarrow> nat \<Rightarrow> pyval \<Rightarrow> world \<Rightarrow> (exn + pyval) \<times> world" where
  "process_signal env now signal w =
     (case match_subscribers env signal of
        Inl e \<Rightarrow> (Inl e, w)
      | Inr chat_ids \<Rightarrow>
     (case py_getitem signal ''symbol'' of
        Inl e \<Rightarrow> (Inl e, w)
      | Inr symbol \<Rightarrow>
     (case analyze_sentiment env now symbol w of
        (Inl e, w1) \<Rightarrow> (Inl e, w1)
      | (Inr sentiment, w1) \<Rightarrow>
     (case send_to_all env chat_ids signal sentiment w1 of
        (Inl e, w2) \<Rightarrow> (Inl e, w2)
      | (Inr u, w2) \<Rightarrow>
          (Inr (PyDict [(''status'', PyStr ''success''),
                        (''sent_to'', PyInt (int (length chat_ids))),
                        (''signal'', signal),
                        (''sentiment'', PyStr sentiment)]), w2)))))"

subsection \<open>handle_button_click\<close>

text \<open>\<open>ChartService.generate_chart\<close> (services/chart_service.py): its body returns \<open>None\<close>.\<close>

definition generate_chart :: "string \<Rightarrow> string \<Rightarrow> exn + bytes option" where
  "generate_chart symbol interval =
     (case (Inr None :: exn + bytes option) of
        Inl e \<Rightarrow> Inr None
      | Inr r \<Rightarrow> Inr r)"

text \<open>\<open>callback_query["message"]["chat"]["id"]\<close>.\<close>

definition callback_chat_id :: "pyval \<Rightarrow> exn + pyval" where
  "callback_chat_id callback_query =
     (case py_getitem callback_query ''message'' of
        Inl e \<Rightarrow> Inl e
      | Inr message \<Rightarrow>
     (case py_getitem message ''chat'' of
        Inl e \<Rightarrow> Inl e
      | Inr chat \<Rightarrow> py_getitem chat ''id''))"

text \<open>The reply of lines 163 to 166, sent when \<open>chart_bytes\<close> is \<open>None\<close> or empty.\<close>

definition no_chart_message :: "pyval \<Rightarrow> tg_call" where
  "no_chart_message chat_id =
     SendMessage chat_id
       (emoji_cross @ '' Sorry, could not generate chart at this time.'') None None"

text \<open>
  The \<open>try\<close> block. Beside the outcome and the state it gives the local \<open>chat_id\<close>,
  which is \<open>None\<close> as long as the assignment of line 150 has not been reached.
  \<open>data.startswith\<close> exists for a string only; the unpacking of line 153 needs exactly
  three parts.
\<close>

definition handle_button_click_body :: "bot_env \<Rightarrow> pyval \<Rightarrow> world \<Rightarrow> (exn + unit) \<times> pyval option \<times> world" where
  "handle_button_click_body env callback_query w =
     (case py_getitem callback_query ''data'' of
        Inl e \<Rightarrow> (Inl e, None, w)
      | Inr data \<Rightarrow>
     (case callback_chat_id callback_query of
        Inl e \<Rightarrow> (Inl e, None, w)
      | Inr chat_id \<Rightarrow>
     (case data of
        PyStr d \<Rightarrow>
          if startswith d ''chart_'' then
            (case split_on CHR ''_'' d of
               [u, symbol, timeframe] \<Rightarrow>
                 (case generate_chart symbol timeframe of
                    Inl e \<Rightarrow> (Inl e, Some chat_id, w)
                  | Inr chart_bytes \<Rightarrow>
                      (case (case chart_bytes of
                               None \<Rightarrow> bot_call env (no_chart_message chat_id) w
                             | Some photo \<Rightarrow>
                                 if photo \<noteq> [] then
                                   bot_call env
                                     (SendPhoto chat_id photo
                                        (emoji_chart @ '' Technical Analysis for '' @ symbol
                                         @ '' ('' @ timeframe @ '')'')) w
                                 else bot_call env (no_chart_message chat_id) w) of
                         (r, w') \<Rightarrow> (r, Some chat_id, w')))
             | _ \<Rightarrow> (Inl ValueError, Some chat_id, w))
          else (Inr (), Some chat_id, w)
      | _ \<Rightarrow> (Inl AttributeError, Some chat_id, w))))"

text \<open>
  The handler: the \<open>except Exception\<close> clause sends the generic text to \<open>chat_id\<close>.
  Nothing guards that call: \<open>self._bot.send_message\<close> is looked up first, then the
  local \<open>chat_id\<close> is read, then the call is made.
\<close>

definition handle_button_click :: "bot_env \<Rightarrow> pyval \<Rightarrow> world \<Rightarrow> (exn + unit) \<times> world" where
  "handle_button_click env callback_query w =
     (case handle_button_click_body env callback_query w of
        (Inr u, cid, w') \<Rightarrow> (Inr (), w')
      | (Inl e, cid, w') \<Rightarrow>
          if \<not> bot_present w' then (Inl AttributeError, w')
          else (case cid of
                  None \<Rightarrow> (Inl (UnboundLocalError ''chat_id''), w')
                | Some chat_id \<Rightarrow>
                    bot_call env
                      (SendMessage chat_id
                         (emoji_cross @ '' An error occurred while processing your request.'')
                         None None) w'))"

section \<open>The chart capture service (main.py)\<close>

subsection \<open>The URL\<close>

text \<open>
  \<open>urllib.parse.quote\<close> with its default \<open>safe='/'\<close>: letters, digits and the
  characters \<open>_.-~/\<close> are kept, every other byte becomes \<open>%XX\<close> in upper-case
  hexadecimal.
\<close>

definition quote_safe :: string where
  "quote_safe =
     ''ABCDEFGHIJKLMNOPQRSTUVWXYZabcdefghijklmnopqrstuvwxyz0123456789_.-~/''"

definition hex_digit :: "nat \<Rightarrow> char" where
  "hex_digit n = ''0123456789ABCDEF'' ! (n mod 16)"

definition quote_byte :: "char \<Rightarrow> string" where
  "quote_byte c =
     (if c \<in> set quote_safe then [c]
      else [CHR ''%'', hex_digit ((of_char c :: nat) div 16), hex_digit (of_char c :: nat)])"

definition quote :: "string \<Rightarrow> string" where
  "quote s = concat (map quote_byte s)"

text \<open>Lines 77 and 78.\<close>

definition tradingview_url :: "string \<Rightarrow> string" where
  "tradingview_url symbol =
     ''https://www.tradingview.com/chart/?symbol='' @ quote (''FX:'' @ symbol)"

subsection \<open>The browser\<close>

text \<open>
  The calls made on Selenium, in order: \<open>webdriver.Chrome\<close>, \<open>set_window_size\<close> and
  \<open>set_page_load_timeout\<close> in \<open>setup_driver\<close>, then \<open>driver.get\<close>, the wait for the
  chart container, the sleep, the script that hides the interface, the screenshot,
  \<open>driver.quit\<close>.
\<close>

datatype browser_event =
    Launch
  | SetWindowSize
  | SetPageLoadTimeout
  | Get string
  | WaitChart
  | Sleep
  | HideUI
  | Screenshot
  | Quit

text \<open>What the browser does in one attempt: which call raises, and the image.\<close>

record attempt_env =
  chrome_error :: "exn option"
  window_size_error :: "exn option"
  page_timeout_error :: "exn option"
  get_error :: "exn option"
  wait_error :: "exn option"
  script_error :: "exn option"
  screenshot_result :: "exn + bytes"
  quit_error :: "exn option"

record chart_env =
  browser :: "int \<Rightarrow> attempt_env"
  str_of_exn :: "exn \<Rightarrow> string"

datatype 'a flow = Return 'a | Continue

text \<open>
  \<open>setup_driver\<close>: its \<open>except\<close> clause logs and raises again what the launch or one
  of the two settings raised; it returns the driver only when all three calls succeed.
\<close>

definition setup_driver :: "attempt_env \<Rightarrow> browser_event list \<Rightarrow> (exn + unit) \<times> browser_event list" where
  "setup_driver a tr =
     (case chrome_error a of
        Some e \<Rightarrow> (Inl e, tr @ [Launch])
      | None \<Rightarrow>
     (case window_size_error a of
        Some e \<Rightarrow> (Inl e, tr @ [Launch, SetWindowSize])
      | None \<Rightarrow>
     (case page_timeout_error a of
        Some e \<Rightarrow> (Inl e, tr @ [Launch, SetWindowSize, SetPageLoadTimeout])
      | None \<Rightarrow> (Inr (), tr @ [Launch, SetWindowSize, SetPageLoadTimeout]))))"

text \<open>The inner \<open>try\<close> block, lines 84 to 129.\<close>

definition capture_steps :: "attempt_env \<Rightarrow> string \<Rightarrow> browser_event list \<Rightarrow> (exn + bytes) \<times> browser_event list" where
  "capture_steps a url tr =
     (case get_error a of
        Some e \<Rightarrow> (Inl e, tr @ [Get url])
      | None \<Rightarrow>
     (case wait_error a of
        Some e \<Rightarrow> (Inl e, tr @ [Get url, WaitChart])
      | None \<Rightarrow>
     (case script_error a of
        Some e \<Rightarrow> (Inl e, tr @ [Get url, WaitChart, Sleep, HideUI])
      | None \<Rightarrow>
     (case screenshot_result a of
        Inl e \<Rightarrow> (Inl e, tr @ [Get url, WaitChart, Sleep, HideUI, Screenshot])
      | Inr screenshot \<Rightarrow>
          (Inr screenshot, tr @ [Get url, WaitChart, Sleep, HideUI, Screenshot])))))"

text \<open>The \<open>finally\<close> block: \<open>driver.quit()\<close>, whose exception is only logged.\<close>

definition driver_quit :: "attempt_env \<Rightarrow> browser_event list \<Rightarrow> browser_event list" where
  "driver_quit a tr = (case quit_error a of Some e \<Rightarrow> tr @ [Quit] | None \<Rightarrow> tr @ [Quit])"

text \<open>
  One pass of the loop body. Both \<open>except\<close> clauses end the same way: \<open>continue\<close> when
  \<open>attempt < max_retries - 1\<close>, otherwise \<open>return None, False\<close>; the \<open>finally\<close> block
  runs on every way out of the inner \<open>try\<close>.
\<close>

definition capture_attempt :: "attempt_env \<Rightarrow> string \<Rightarrow> int \<Rightarrow> int \<Rightarrow> browser_event list \<Rightarrow> (bytes option \<times> bool) flow \<times> browser_event list" where
  "capture_attempt a symbol attempt max_retries tr =
     (let url = tradingview_url symbol
      in case setup_driver a tr of
           (Inl e, tr1) \<Rightarrow>
             (if attempt < max_retries - 1 then Continue else Return (None, False), tr1)
         | (Inr driver, tr1) \<Rightarrow>
             (case capture_steps a url tr1 of
                (Inr screenshot, tr2) \<Rightarrow> (Return (Some screenshot, True), driver_quit a tr2)
              | (Inl e, tr2) \<Rightarrow>
                  (if attempt < max_retries - 1 then Continue else Return (None, False),
                   driver_quit a tr2)))"

text \<open>The loop over \<open>range(max_retries)\<close>, and the \<open>return None, False\<close> after it.\<close>

fun capture_loop :: "chart_env \<Rightarrow> string \<Rightarrow> int \<Rightarrow> int list \<Rightarrow> browser_event list \<Rightarrow> (bytes option \<times> bool) \<times> browser_event list" where
  "capture_loop env symbol max_retries [] tr = ((None, False), tr)"
| "capture_loop env symbol max_retries (attempt # rest) tr =
     (case capture_attempt (browser env attempt) symbol attempt max_retries tr of
        (Return r, tr') \<Rightarrow> (r, tr')
      | (Continue, tr') \<Rightarrow> capture_loop env symbol max_retries rest tr')"

definition capture_tradingview_chart :: "chart_env \<Rightarrow> string \<Rightarrow> string \<Rightarrow> string \<Rightarrow> int \<Rightarrow> browser_event list \<Rightarrow> (exn + bytes option \<times> bool) \<times> browser_event list" where
  "capture_tradingview_chart env symbol interval theme max_retries tr =
     (case capture_loop env symbol max_retries [0..max_retries - 1] tr of
        (r, tr') \<Rightarrow> (Inr r, tr'))"

text \<open>\<open>get_chart\<close>: the capture runs with the default \<open>max_retries = 2\<close>.\<close>

definition get_chart_body :: "chart_env \<Rightarrow> string \<Rightarrow> string \<Rightarrow> string \<Rightarrow> browser_event list \<Rightarrow> (exn + bytes) \<times> browser_event list" where
  "get_chart_body env symbol interval theme tr =
     (case capture_tradingview_chart env symbol interval theme 2 tr of
        (Inl e, tr') \<Rightarrow> (Inl e, tr')
      | (Inr (screenshot, success), tr') \<Rightarrow>
          (case screenshot of
             None \<Rightarrow> (Inl (HTTPException 500 ''Failed to capture chart''), tr')
           | Some png \<Rightarrow>
               if success \<and> png \<noteq> [] then (Inr png, tr')
               else (Inl (HTTPException 500 ''Failed to capture chart''), tr')))"

definition get_chart :: "chart_env \<Rightarrow> string \<Rightarrow> string \<Rightarrow> string \<Rightarrow> browser_event list \<Rightarrow> (exn + bytes) \<times> browser_event list" where
  "get_chart env symbol interval theme tr =
     (case get_chart_body env symbol interval theme tr of
        (Inl e, tr') \<Rightarrow> (Inl (HTTPException 500 (str_of_exn env e)), tr')
      | (Inr png, tr') \<Rightarrow> (Inr png, tr'))"

section \<open>Concrete inputs\<close>

text \<open>
  A state with the bot set, an empty cache and nothing sent yet, the signal of the
  specification's scenario, a callback's \<open>message\<close>, and six behaviours of the clients:
  all of them working with two subscribers, the completion returning an empty text,
  Redis unreachable, Telegram refusing every call, Telegram refusing the first
  subscriber only, and no subscriber at all. The only value formatted that is no
  string is the price of \<open>eurusd_signal\<close>, the float 1.085.
\<close>

definition fresh_world :: world where
  "fresh_world =
     \<lparr>bot_present = True, redis_db = (\<lambda>k. None), llm_requests = [], tg_calls = []\<rparr>"

definition eurusd_signal :: pyval where
  "eurusd_signal =
     PyDict [(''market'', PyStr ''forex''), (''instrument'', PyStr ''EURUSD''),
             (''timeframe'', PyStr ''1h''), (''symbol'', PyStr ''EURUSD''),
             (''action'', PyStr ''BUY''), (''price'', PyFloat 1221601398924247 (- 50))]"

definition working_env :: bot_env where
  "working_env =
     \<lparr>fmt = (\<lambda>v. ''1.085''),
      decodes = (\<lambda>b. True),
      supabase_query = (\<lambda>market instrument timeframe.
         Inr [PyDict [(''user_id'', PyStr ''123'')], PyDict [(''user_id'', PyStr ''456'')]]),
      redis_get_error = None,
      redis_setex_error = None,
      openai_create = (\<lambda>prompt. Inr [Some ''Bullish'']),
      telegram = (\<lambda>c. None)\<rparr>"

definition empty_reply_env :: bot_env where
  "empty_reply_env = working_env\<lparr>openai_create := (\<lambda>prompt. Inr [Some []])\<rparr>"

definition redis_down_env :: bot_env where
  "redis_down_env =
     working_env\<lparr>redis_get_error := Some (External ''ConnectionError''),
                 redis_setex_error := Some (External ''ConnectionError'')\<rparr>"

definition blocked_env :: bot_env where
  "blocked_env = working_env\<lparr>telegram := (\<lambda>c. Some (External ''Forbidden''))\<rparr>"

definition chat_123 :: pyval where
  "chat_123 = PyDict [(''chat'', PyDict [(''id'', PyInt 123)])]"

definition half_blocked_env :: bot_env where
  "half_blocked_env =
     working_env\<lparr>telegram := (\<lambda>c. case c of
                      SendMessage chat text parse_mode markup \<Rightarrow>
                        if chat = PyStr ''123'' then Some (External ''Forbidden'') else None
                    | SendPhoto chat photo caption \<Rightarrow> None)\<rparr>"

definition no_subscribers_env :: bot_env where
  "no_subscribers_env = working_env\<lparr>supabase_query := (\<lambda>market instrument timeframe. Inr [])\<rparr>"

text \<open>
  A browser whose first launch fails and whose second run times out waiting for the
  chart container.
\<close>

definition timeout_attempt :: attempt_env where
  "timeout_attempt =
     \<lparr>chrome_error = None, window_size_error = None, page_timeout_error = None,
      get_error = None,
      wait_error = Some (External ''TimeoutException''), script_error = None,
      screenshot_result = Inr ''PNG'', quit_error = None\<rparr>"

definition no_browser_attempt :: attempt_env where
  "no_browser_attempt = timeout_attempt\<lparr>chrome_error := Some (External ''WebDriverException'')\<rparr>"

definition failing_chart_env :: chart_env where
  "failing_chart_env =
     \<lparr>browser = (\<lambda>attempt. if attempt = 0 then no_browser_attempt else timeout_attempt),
      str_of_exn = (\<lambda>e. ''error'')\<rparr>"

text \<open>The completion API unreachable, and a state whose cache holds a sentiment.\<close>

definition api_down_env :: bot_env where
  "api_down_env = working_env\<lparr>openai_create := (\<lambda>prompt. Inl (External ''APIConnectionError''))\<rparr>"

definition cached_world :: world where
  "cached_world = fresh_world\<lparr>redis_db := [''sentiment:EURUSD'' \<mapsto> (''Bearish'', 300)]\<rparr>"

text \<open>A browser that starts and then refuses \<open>set_window_size\<close>, in every attempt.\<close>

definition leaking_attempt :: attempt_env where
  "leaking_attempt = timeout_attempt\<lparr>window_size_error := Some (External ''WebDriverException'')\<rparr>"

definition leaking_chart_env :: chart_env where
  "leaking_chart_env = \<lparr>browser = (\<lambda>attempt. leaking_attempt), str_of_exn = (\<lambda>e. ''error'')\<rparr>"

text \<open>
  The setup of an attempt succeeds when \<open>setup_driver\<close> returns the driver. An attempt
  fails when its setup or one of the steps up to the screenshot raises. The calls one
  attempt makes on the browser do not depend on the attempt's number.
\<close>

definition setup_succeeds :: "attempt_env \<Rightarrow> bool" where
  "setup_succeeds a = (fst (setup_driver a []) = Inr ())"

definition attempt_fails :: "attempt_env \<Rightarrow> bool" where
  "attempt_fails a =
     (chrome_error a \<noteq> None \<or> window_size_error a \<noteq> None \<or> page_timeout_error a \<noteq> None
      \<or> get_error a \<noteq> None \<or> wait_error a \<noteq> None
      \<or> script_error a \<noteq> None \<or> isl (screenshot_result a))"

definition attempt_events :: "attempt_env \<Rightarrow> string \<Rightarrow> browser_event list" where
  "attempt_events a symbol = snd (capture_attempt a symbol 0 0 [])"

section \<open>Properties of the HTTP endpoints\<close>

text \<open>
  C1. A body to POST /analyze without a \<open>symbol\<close> is meant to be answered with 400.
  The \<open>HTTPException\<close> with status 400 is raised inside the \<open>try\<close> block, whose
  \<open>except Exception\<close> clause catches it and raises a 500 in its place: for the body
  \<open>{}\<close> the response status is 500, not 400.
\<close>

theorem analyze_missing_symbol_is_500:
  "main_analyze_sentiment env [] =
     Inl (HTTPException 500 (exc_text env (HTTPException 400 ''Symbol is required'')))
   \<and> http_status (main_analyze_sentiment env []) = 500
   \<and> http_status (main_analyze_sentiment env []) \<noteq> 400"
  by (simp add: main_analyze_sentiment_def main_analyze_sentiment_body_def dict_get_def)

text \<open>
  C5. Whatever the three probes do (succeed or raise), GET /health on the bot service
  returns a body, so the response is HTTP 200, and the body's top-level \<open>status\<close> is
  \<open>healthy\<close>.
\<close>

theorem health_check_always_healthy:
  "\<exists>kvs. health_check env = Inr (PyDict kvs)
         \<and> http_status (health_check env) = 200
         \<and> py_getitem (PyDict kvs) ''status'' = Inr (PyStr ''healthy'')"
  by (simp add: health_check_def health_check_body_def Let_def)

section \<open>Properties of the trading bot\<close>

subsection \<open>Helper lemmas\<close>

lemma match_subscribers_total: "\<exists>chat_ids. match_subscribers env signal = Inr chat_ids"
  by (simp add: match_subscribers_def split: sum.splits)

lemma analyze_sentiment_total: "\<exists>s w'. analyze_sentiment env now symbol w = (Inr s, w')"
  by (simp add: analyze_sentiment_def split: prod.splits sum.splits)

lemma analyze_sentiment_miss_keeps_bot:
  "bot_present (snd (analyze_sentiment_miss env now symbol key w)) = bot_present w
   \<and> tg_calls (snd (analyze_sentiment_miss env now symbol key w)) = tg_calls w"
  by (simp add: analyze_sentiment_miss_def redis_setex_def Let_def
      split: sum.splits list.splits option.splits)

lemma analyze_sentiment_keeps_bot:
  "bot_present (snd (analyze_sentiment env now symbol w)) = bot_present w
   \<and> tg_calls (snd (analyze_sentiment env now symbol w)) = tg_calls w"
  using analyze_sentiment_miss_keeps_bot [of env now symbol "''sentiment:'' @ py_format env symbol" w]
  by (auto simp: analyze_sentiment_def analyze_sentiment_body_def Let_def
      split: prod.splits sum.splits option.splits)

lemma send_signal_message_call:
  assumes "signal_message env signal sentiment = Inr message"
    and "signal_keyboard env signal = Inr keyboard"
  shows "send_signal_message env chat_id signal sentiment w =
           (Inr (), if bot_present w
                    then w\<lparr>tg_calls := tg_calls w @
                            [SendMessage (PyStr chat_id) message (Some ''Markdown'') (Some keyboard)]\<rparr>
                    else w)"
  using assms
  by (simp add: send_signal_message_def send_signal_message_body_def bot_call_def
      split: option.splits)

lemma send_to_all_calls:
  assumes "signal_message env signal sentiment = Inr message"
    and "signal_keyboard env signal = Inr keyboard"
  shows "\<exists>w'. send_to_all env chat_ids signal sentiment w = (Inr (), w')
           \<and> bot_present w' = bot_present w
           \<and> tg_calls w' = tg_calls w @
               (if bot_present w
                then map (\<lambda>c. SendMessage (PyStr c) message (Some ''Markdown'') (Some keyboard)) chat_ids
                else [])"
proof (induction chat_ids arbitrary: w)
  case Nil
  then show ?case by simp
next
  case (Cons c rest)
  show ?case
  proof (cases "bot_present w")
    case True
    let ?w1 = "w\<lparr>tg_calls := tg_calls w @
                 [SendMessage (PyStr c) message (Some ''Markdown'') (Some keyboard)]\<rparr>"
    from Cons.IH [of ?w1] True show ?thesis
      by (auto simp: send_signal_message_call [OF assms])
  next
    case False
    from Cons.IH [of w] False show ?thesis
      by (auto simp: send_signal_message_call [OF assms])
  qed
qed

lemma signal_message_renders:
  assumes "py_getitem signal ''symbol'' = Inr symbol"
    and "py_getitem signal ''action'' = Inr action"
    and "py_getitem signal ''price'' = Inr price"
  shows "\<exists>message. signal_message env signal sentiment = Inr message"
  using assms by (simp add: signal_message_def)

lemma signal_keyboard_renders:
  assumes "py_getitem signal ''symbol'' = Inr symbol"
    and "py_getitem signal ''timeframe'' = Inr timeframe"
  shows "signal_keyboard env signal =
     Inr [[InlineKeyboardButton (emoji_chart @ '' Technical Analysis'')
             (''chart_'' @ py_format env symbol @ ''_'' @ py_format env timeframe),
           InlineKeyboardButton (emoji_robot @ '' Market Sentiment'')
             (''sentiment_'' @ py_format env symbol)],
          [InlineKeyboardButton (emoji_calendar @ '' Economic Calendar'')
             (''calendar_'' @ py_format env symbol)]]"
  using assms by (simp add: signal_keyboard_def)

lemmas sentiment_defs =
  analyze_sentiment_def analyze_sentiment_body_def analyze_sentiment_miss_def
  redis_get_def redis_setex_def bytes_decode_def py_format_def Let_def

lemmas concrete_defs =
  fresh_world_def working_env_def empty_reply_env_def redis_down_env_def blocked_env_def
  api_down_env_def cached_world_def eurusd_signal_def chat_123_def

subsection \<open>The handler of button clicks\<close>

text \<open>
  C2. Every exception raised while a callback is handled is meant to be caught at the
  top level and answered with the generic text, the handler never raising. The
  \<open>except\<close> clause itself makes an unguarded call with the local \<open>chat_id\<close>: a callback
  without a \<open>data\<close> key raises \<open>KeyError\<close> before \<open>chat_id\<close> is assigned, and the clause
  raises \<open>UnboundLocalError\<close>; and when Telegram refuses the reply to a chart request,
  it refuses the generic text too, and that error leaves the handler.
\<close>

theorem handle_button_click_raises:
  "fst (handle_button_click env (PyDict [(''message'', chat_123)]) fresh_world)
     = Inl (UnboundLocalError ''chat_id'')
   \<and> fst (handle_button_click blocked_env
            (PyDict [(''data'', PyStr ''chart_EURUSD_1h''), (''message'', chat_123)]) fresh_world)
     = Inl (External ''Forbidden'')"
  by (simp add: handle_button_click_def handle_button_click_body_def callback_chat_id_def
      startswith_def generate_chart_def bot_call_def no_chart_message_def concrete_defs)

text \<open>
  C9. For a callback that has its \<open>data\<close> string and its chat identifier, and whose
  \<open>data\<close> does not start with \<open>chart_\<close>, the handler returns normally and leaves the
  state as it was: no call on the bot, no chart generated.
\<close>

theorem unknown_action_no_effect:
  assumes "py_getitem callback_query ''data'' = Inr (PyStr d)"
    and "callback_chat_id callback_query = Inr chat_id"
    and "\<not> startswith d ''chart_''"
  shows "handle_button_click env callback_query w = (Inr (), w)"
  using assms by (simp add: handle_button_click_def handle_button_click_body_def)

theorem unknown_action_no_effect_witness:
  "handle_button_click blocked_env
     (PyDict [(''data'', PyStr ''sentiment_EURUSD''), (''message'', chat_123)]) fresh_world
   = (Inr (), fresh_world)"
  by (rule unknown_action_no_effect [where d = "''sentiment_EURUSD''" and chat_id = "PyInt 123"])
     (simp_all add: callback_chat_id_def startswith_def chat_123_def)

subsection \<open>The sentiment fetcher\<close>

lemma first_call_stores:
  assumes "redis_get env w t (sentiment_key env symbol) = Inr None
           \<or> redis_get env w t (sentiment_key env symbol) = Inr (Some [])"
    and "openai_create env (sentiment_prompt env symbol) = Inr (Some s # others)"
    and "redis_setex_error env = None"
  shows "analyze_sentiment env t symbol w =
           (Inr s, w\<lparr>llm_requests := llm_requests w @ [sentiment_prompt env symbol],
                      redis_db := (redis_db w)(sentiment_key env symbol \<mapsto> (s, t + 300))\<rparr>)"
  using assms
  by (auto simp: analyze_sentiment_def analyze_sentiment_body_def analyze_sentiment_miss_def
      redis_setex_def Let_def)

lemma later_call_hit:
  assumes "redis_db w (sentiment_key env symbol) = Some (s, expiry)"
    and "t \<le> expiry"
    and "s \<noteq> []"
  shows "snd (analyze_sentiment env t symbol w) = w"
    and "redis_get_error env = None \<Longrightarrow> decodes env s \<Longrightarrow>
           analyze_sentiment env t symbol w = (Inr s, w)"
  using assms
  by (auto simp: analyze_sentiment_def analyze_sentiment_body_def redis_get_def bytes_decode_def
      Let_def split: option.splits)

lemma no_request_without_miss:
  assumes "(\<exists>e. redis_get_error env = Some e)
           \<or> (\<exists>c. redis_get env w t (sentiment_key env symbol) = Inr (Some c) \<and> c \<noteq> [])"
  shows "snd (analyze_sentiment env t symbol w) = w"
  using assms
  by (auto simp: analyze_sentiment_def analyze_sentiment_body_def redis_get_def bytes_decode_def
      Let_def split: option.splits)

lemma one_request_per_call:
  "length (llm_requests (snd (analyze_sentiment env t symbol w))) \<le> length (llm_requests w) + 1"
  by (auto simp: analyze_sentiment_def analyze_sentiment_body_def analyze_sentiment_miss_def
      redis_setex_def bytes_decode_def Let_def
      split: sum.splits option.splits list.splits prod.splits)

text \<open>
  C3, as the code has it. \<open>analyze_sentiment\<close> never raises and returns a string,
  which is the fallback text, or a cached value that is not empty, or the text of the
  completion's first choice. When the cache lookup raises, the result is the fallback
  text and nothing else happens. When the lookup finds a value that is not empty, the
  result is that value decoded, or the fallback text when it does not decode. When the
  lookup finds nothing, or an empty value, the result depends on the completion
  request: an API error, no choice, or a first choice without text give the fallback
  text; a first choice with a text gives the fallback text when the store raises, and
  otherwise that text, returned and stored under the key for 300 seconds as it is,
  also when it is empty.
\<close>

theorem analyze_sentiment_result:
  "\<exists>s w'. analyze_sentiment env now symbol w = (Inr s, w')
     \<and> (s = ''Sentiment analysis unavailable''
        \<or> (\<exists>c. redis_get env w now (sentiment_key env symbol) = Inr (Some c) \<and> c \<noteq> [] \<and> s = c)
        \<or> (\<exists>others. openai_create env (sentiment_prompt env symbol) = Inr (Some s # others)))
     \<and> (\<forall>e. redis_get_error env = Some e \<longrightarrow>
           s = ''Sentiment analysis unavailable'' \<and> w' = w)
     \<and> (\<forall>c. redis_get env w now (sentiment_key env symbol) = Inr (Some c) \<and> c \<noteq> [] \<longrightarrow>
           s = (if decodes env c then c else ''Sentiment analysis unavailable'') \<and> w' = w)
     \<and> (redis_get env w now (sentiment_key env symbol) = Inr None
        \<or> redis_get env w now (sentiment_key env symbol) = Inr (Some []) \<longrightarrow>
          (case openai_create env (sentiment_prompt env symbol) of
             Inl e \<Rightarrow> s = ''Sentiment analysis unavailable'' \<and> redis_db w' = redis_db w
           | Inr [] \<Rightarrow> s = ''Sentiment analysis unavailable'' \<and> redis_db w' = redis_db w
           | Inr (None # others) \<Rightarrow>
               s = ''Sentiment analysis unavailable'' \<and> redis_db w' = redis_db w
           | Inr (Some text # others) \<Rightarrow>
               (case redis_setex_error env of
                  Some e \<Rightarrow> s = ''Sentiment analysis unavailable'' \<and> redis_db w' = redis_db w
                | None \<Rightarrow>
                    s = text
                    \<and> redis_db w' = (redis_db w)(sentiment_key env symbol \<mapsto> (text, now + 300)))))"
proof -
  obtain s w' where run: "analyze_sentiment env now symbol w = (Inr s, w')"
    using analyze_sentiment_total by blast
  have origin: "s = ''Sentiment analysis unavailable''
        \<or> (\<exists>c. redis_get env w now (sentiment_key env symbol) = Inr (Some c) \<and> c \<noteq> [] \<and> s = c)
        \<or> (\<exists>others. openai_create env (sentiment_prompt env symbol) = Inr (Some s # others))"
    using run
    by (auto simp: analyze_sentiment_def analyze_sentiment_body_def analyze_sentiment_miss_def
        bytes_decode_def redis_setex_def Let_def
        split: sum.splits option.splits list.splits prod.splits if_splits)
  have down: "\<forall>e. redis_get_error env = Some e \<longrightarrow>
                s = ''Sentiment analysis unavailable'' \<and> w' = w"
    using run
    by (auto simp: analyze_sentiment_def analyze_sentiment_body_def redis_get_def Let_def)
  have hit: "\<forall>c. redis_get env w now (sentiment_key env symbol) = Inr (Some c) \<and> c \<noteq> [] \<longrightarrow>
               s = (if decodes env c then c else ''Sentiment analysis unavailable'') \<and> w' = w"
    using run
    by (auto simp: analyze_sentiment_def analyze_sentiment_body_def bytes_decode_def Let_def)
  have miss: "redis_get env w now (sentiment_key env symbol) = Inr None
        \<or> redis_get env w now (sentiment_key env symbol) = Inr (Some []) \<longrightarrow>
          (case openai_create env (sentiment_prompt env symbol) of
             Inl e \<Rightarrow> s = ''Sentiment analysis unavailable'' \<and> redis_db w' = redis_db w
           | Inr [] \<Rightarrow> s = ''Sentiment analysis unavailable'' \<and> redis_db w' = redis_db w
           | Inr (None # others) \<Rightarrow>
               s = ''Sentiment analysis unavailable'' \<and> redis_db w' = redis_db w
           | Inr (Some text # others) \<Rightarrow>
               (case redis_setex_error env of
                  Some e \<Rightarrow> s = ''Sentiment analysis unavailable'' \<and> redis_db w' = redis_db w
                | None \<Rightarrow>
                    s = text
                    \<and> redis_db w' = (redis_db w)(sentiment_key env symbol \<mapsto> (text, now + 300))))"
    using run
    by (auto simp: analyze_sentiment_def analyze_sentiment_body_def analyze_sentiment_miss_def
        redis_setex_def Let_def
        split: sum.splits option.splits list.splits)
  from run origin down hit miss show ?thesis by blast
qed

theorem analyze_sentiment_result_witness:
  "fst (analyze_sentiment redis_down_env 0 (PyStr ''EURUSD'') fresh_world)
     = Inr ''Sentiment analysis unavailable''
   \<and> fst (analyze_sentiment api_down_env 0 (PyStr ''EURUSD'') fresh_world)
     = Inr ''Sentiment analysis unavailable''
   \<and> fst (analyze_sentiment working_env 10 (PyStr ''EURUSD'') cached_world) = Inr ''Bearish''
   \<and> (\<exists>w'. analyze_sentiment working_env 0 (PyStr ''EURUSD'') fresh_world = (Inr ''Bullish'', w')
          \<and> redis_db w' ''sentiment:EURUSD'' = Some (''Bullish'', 300))"
proof -
  have down: "redis_get_error redis_down_env = Some (External ''ConnectionError'')"
    by (simp add: concrete_defs)
  have miss: "redis_get api_down_env fresh_world 0 (sentiment_key api_down_env (PyStr ''EURUSD''))
                = Inr None"
    "redis_get working_env fresh_world 0 (sentiment_key working_env (PyStr ''EURUSD''))
                = Inr None"
    by (simp_all add: redis_get_def concrete_defs)
  have hit: "redis_get working_env cached_world 10 (sentiment_key working_env (PyStr ''EURUSD''))
               = Inr (Some ''Bearish'')"
    by (simp add: redis_get_def py_format_def concrete_defs)
  from analyze_sentiment_result [of redis_down_env 0 "PyStr ''EURUSD''" fresh_world] down
  have first: "fst (analyze_sentiment redis_down_env 0 (PyStr ''EURUSD'') fresh_world)
                 = Inr ''Sentiment analysis unavailable''"
    by auto
  from analyze_sentiment_result [of api_down_env 0 "PyStr ''EURUSD''" fresh_world] miss(1)
  have second: "fst (analyze_sentiment api_down_env 0 (PyStr ''EURUSD'') fresh_world)
                  = Inr ''Sentiment analysis unavailable''"
    by (auto simp: py_format_def concrete_defs)
  from analyze_sentiment_result [of working_env 10 "PyStr ''EURUSD''" cached_world] hit
  have third: "fst (analyze_sentiment working_env 10 (PyStr ''EURUSD'') cached_world)
                 = Inr ''Bearish''"
    by (auto simp: concrete_defs)
  from analyze_sentiment_result [of working_env 0 "PyStr ''EURUSD''" fresh_world] miss(2)
  have fourth: "\<exists>w'. analyze_sentiment working_env 0 (PyStr ''EURUSD'') fresh_world
                        = (Inr ''Bullish'', w')
                  \<and> redis_db w' ''sentiment:EURUSD'' = Some (''Bullish'', 300)"
    by (auto simp: py_format_def concrete_defs)
  from first second third fourth show ?thesis by blast
qed

text \<open>
  The claim C3 as stated fails: with an empty cache and a completion whose text is
  empty, the result is the empty string.
\<close>

theorem analyze_sentiment_empty_counterexample:
  "fst (analyze_sentiment empty_reply_env 0 (PyStr ''EURUSD'') fresh_world) = Inr []"
  by (simp add: sentiment_defs concrete_defs)

text \<open>
  C7, as the code has it. Take a first call at the instant \<open>t1\<close> and a second call at an
  instant up to \<open>t1 + 300\<close>, the clients behaving as \<open>env1\<close> during the first and as
  \<open>env2\<close> during the second. If the first call issues no request (its cache lookup
  raises, or finds a value that is not empty), or its request succeeds with a text that
  is not empty and the store succeeds, then the two calls together issue at most one
  request. In the second case, when the lookup of the first call found no value, that
  call returns the text, issues exactly one request and stores the text under
  \<open>sentiment:{symbol}\<close> with the expiry \<open>t1 + 300\<close>; the second call issues no request,
  and when its own lookup works and the text decodes, it returns the same text and
  changes nothing.
\<close>

theorem sentiment_two_calls_one_request:
  assumes key: "py_format env2 symbol = py_format env1 symbol"
    and within: "t2 \<le> t1 + 300"
    and first:
      "(\<exists>e. redis_get_error env1 = Some e)
       \<or> (\<exists>c. redis_get env1 w t1 (sentiment_key env1 symbol) = Inr (Some c) \<and> c \<noteq> [])
       \<or> (\<exists>s others. openai_create env1 (sentiment_prompt env1 symbol) = Inr (Some s # others)
              \<and> s \<noteq> [] \<and> redis_setex_error env1 = None)"
  shows "\<exists>r1 w1 r2 w2.
           analyze_sentiment env1 t1 symbol w = (r1, w1)
         \<and> analyze_sentiment env2 t2 symbol w1 = (r2, w2)
         \<and> length (llm_requests w2) \<le> length (llm_requests w) + 1
         \<and> (\<forall>s others.
               (redis_get env1 w t1 (sentiment_key env1 symbol) = Inr None
                \<or> redis_get env1 w t1 (sentiment_key env1 symbol) = Inr (Some []))
               \<and> openai_create env1 (sentiment_prompt env1 symbol) = Inr (Some s # others)
               \<and> s \<noteq> [] \<and> redis_setex_error env1 = None \<longrightarrow>
                 r1 = Inr s
               \<and> llm_requests w1 = llm_requests w @ [sentiment_prompt env1 symbol]
               \<and> redis_db w1 (sentiment_key env1 symbol) = Some (s, t1 + 300)
               \<and> llm_requests w2 = llm_requests w1
               \<and> (redis_get_error env2 = None \<and> decodes env2 s \<longrightarrow> r2 = Inr s \<and> w2 = w1))"
proof -
  obtain r1 w1 where c1: "analyze_sentiment env1 t1 symbol w = (r1, w1)"
    by (cases "analyze_sentiment env1 t1 symbol w")
  obtain r2 w2 where c2: "analyze_sentiment env2 t2 symbol w1 = (r2, w2)"
    by (cases "analyze_sentiment env2 t2 symbol w1")
  have key': "sentiment_key env2 symbol = sentiment_key env1 symbol"
    using key by simp
  have stored: "r1 = Inr s
               \<and> llm_requests w1 = llm_requests w @ [sentiment_prompt env1 symbol]
               \<and> redis_db w1 (sentiment_key env1 symbol) = Some (s, t1 + 300)
               \<and> llm_requests w2 = llm_requests w1
               \<and> (redis_get_error env2 = None \<and> decodes env2 s \<longrightarrow> r2 = Inr s \<and> w2 = w1)"
    if miss: "redis_get env1 w t1 (sentiment_key env1 symbol) = Inr None
              \<or> redis_get env1 w t1 (sentiment_key env1 symbol) = Inr (Some [])"
      and api: "openai_create env1 (sentiment_prompt env1 symbol) = Inr (Some s # others)"
      and nonempty: "s \<noteq> []"
      and store: "redis_setex_error env1 = None"
    for s others
  proof -
    from first_call_stores [OF miss api store] c1
    have r1: "r1 = Inr s"
      and w1: "w1 = w\<lparr>llm_requests := llm_requests w @ [sentiment_prompt env1 symbol],
                       redis_db := (redis_db w)(sentiment_key env1 symbol \<mapsto> (s, t1 + 300))\<rparr>"
      by simp_all
    have db: "redis_db w1 (sentiment_key env2 symbol) = Some (s, t1 + 300)"
      using w1 key' by simp
    have same: "w2 = w1"
      using later_call_hit(1) [OF db within nonempty] c2 by simp
    have again: "redis_get_error env2 = None \<and> decodes env2 s \<longrightarrow> r2 = Inr s \<and> w2 = w1"
      using later_call_hit(2) [OF db within nonempty] c2 by auto
    from r1 w1 db same again key' show ?thesis by simp
  qed
  have second: "length (llm_requests w2) \<le> length (llm_requests w1) + 1"
    using one_request_per_call [of env2 t2 symbol w1] c2 by simp
  have bound: "length (llm_requests w2) \<le> length (llm_requests w) + 1"
  proof (cases "(\<exists>e. redis_get_error env1 = Some e)
       \<or> (\<exists>c. redis_get env1 w t1 (sentiment_key env1 symbol) = Inr (Some c) \<and> c \<noteq> [])")
    case True
    then have "w1 = w"
      using no_request_without_miss [of env1 w t1 symbol] c1 by simp
    with second show ?thesis by simp
  next
    case False
    with first obtain s others where
      api: "openai_create env1 (sentiment_prompt env1 symbol) = Inr (Some s # others)"
      and nonempty: "s \<noteq> []" and store: "redis_setex_error env1 = None"
      by blast
    from False have miss: "redis_get env1 w t1 (sentiment_key env1 symbol) = Inr None
              \<or> redis_get env1 w t1 (sentiment_key env1 symbol) = Inr (Some [])"
      by (auto simp: redis_get_def split: option.splits)
    from stored [OF miss api nonempty store] show ?thesis by simp
  qed
  from c1 c2 bound stored show ?thesis by blast
qed

theorem sentiment_two_calls_one_request_witness:
  "(\<exists>w1. analyze_sentiment working_env 0 (PyStr ''EURUSD'') fresh_world = (Inr ''Bullish'', w1)
        \<and> llm_requests w1 = [''Analyze EURUSD sentiment briefly'']
        \<and> redis_db w1 ''sentiment:EURUSD'' = Some (''Bullish'', 300)
        \<and> analyze_sentiment working_env 300 (PyStr ''EURUSD'') w1 = (Inr ''Bullish'', w1)
        \<and> llm_requests (snd (analyze_sentiment redis_down_env 300 (PyStr ''EURUSD'') w1))
            = [''Analyze EURUSD sentiment briefly''])"
proof -
  have miss: "redis_get working_env fresh_world 0 (sentiment_key working_env (PyStr ''EURUSD''))
                = Inr None"
    by (simp add: redis_get_def concrete_defs)
  have api: "openai_create working_env (sentiment_prompt working_env (PyStr ''EURUSD''))
               = Inr (Some ''Bullish'' # [])"
    by (simp add: concrete_defs)
  have store: "redis_setex_error working_env = None"
    and get2: "redis_get_error working_env = None"
    and dec: "decodes working_env ''Bullish''"
    by (simp_all add: concrete_defs)
  have first: "(\<exists>e. redis_get_error working_env = Some e)
       \<or> (\<exists>c. redis_get working_env fresh_world 0 (sentiment_key working_env (PyStr ''EURUSD''))
                 = Inr (Some c) \<and> c \<noteq> [])
       \<or> (\<exists>s others. openai_create working_env (sentiment_prompt working_env (PyStr ''EURUSD''))
                        = Inr (Some s # others)
              \<and> s \<noteq> [] \<and> redis_setex_error working_env = None)"
    using api store by simp
  have key: "py_format env2 (PyStr ''EURUSD'') = py_format working_env (PyStr ''EURUSD'')" for env2
    by (simp add: py_format_def)
  have within: "(300::nat) \<le> 0 + 300"
    by simp
  from sentiment_two_calls_one_request [OF key within first, of working_env] miss api store get2 dec
  obtain w1 where
    run1: "analyze_sentiment working_env 0 (PyStr ''EURUSD'') fresh_world = (Inr ''Bullish'', w1)"
    and req: "llm_requests w1 = llm_requests fresh_world
                @ [sentiment_prompt working_env (PyStr ''EURUSD'')]"
    and db: "redis_db w1 (sentiment_key working_env (PyStr ''EURUSD'')) = Some (''Bullish'', 0 + 300)"
    and run2: "analyze_sentiment working_env 300 (PyStr ''EURUSD'') w1 = (Inr ''Bullish'', w1)"
    by auto
  from sentiment_two_calls_one_request [OF key within first, of redis_down_env] miss api store run1
  have down: "llm_requests (snd (analyze_sentiment redis_down_env 300 (PyStr ''EURUSD'') w1))
                = llm_requests w1"
    by auto
  from run1 req db run2 down show ?thesis
    by (auto simp: py_format_def fresh_world_def)
qed

text \<open>
  The claim C7 as stated fails: when the completion request of the first call raises,
  nothing is stored, and a second call ten seconds later issues a second request.
\<close>

theorem sentiment_failed_request_counterexample:
  "llm_requests (snd (analyze_sentiment api_down_env 10 (PyStr ''EURUSD'')
       (snd (analyze_sentiment api_down_env 0 (PyStr ''EURUSD'') fresh_world))))
   = [''Analyze EURUSD sentiment briefly'', ''Analyze EURUSD sentiment briefly'']"
  by (simp add: sentiment_defs concrete_defs)

subsection \<open>The notification dispatcher\<close>

text \<open>
  C8. For a signal with its symbol and timeframe strings (and the action and price the
  text needs), the message sent carries the two-row grid: the chart button with
  \<open>chart_\<close> + symbol + \<open>_\<close> + timeframe and the sentiment button with
  \<open>sentiment_\<close> + symbol in row one, the calendar button with \<open>calendar_\<close> + symbol in
  row two.
\<close>

theorem signal_keyboard_layout:
  assumes sym: "py_getitem signal ''symbol'' = Inr (PyStr symbol)"
    and tf: "py_getitem signal ''timeframe'' = Inr (PyStr timeframe)"
    and act: "py_getitem signal ''action'' = Inr action"
    and pri: "py_getitem signal ''price'' = Inr price"
    and bot: "bot_present w"
  shows "\<exists>message keyboard.
           signal_message env signal sentiment = Inr message
         \<and> signal_keyboard env signal = Inr keyboard
         \<and> keyboard =
             [[InlineKeyboardButton (emoji_chart @ '' Technical Analysis'')
                 (''chart_'' @ symbol @ ''_'' @ timeframe),
               InlineKeyboardButton (emoji_robot @ '' Market Sentiment'')
                 (''sentiment_'' @ symbol)],
              [InlineKeyboardButton (emoji_calendar @ '' Economic Calendar'')
                 (''calendar_'' @ symbol)]]
         \<and> snd (send_signal_message env chat_id signal sentiment w) =
             w\<lparr>tg_calls := tg_calls w @
                 [SendMessage (PyStr chat_id) message (Some ''Markdown'') (Some keyboard)]\<rparr>"
proof -
  obtain message where msg: "signal_message env signal sentiment = Inr message"
    using signal_message_renders [OF sym act pri] by blast
  have kb: "signal_keyboard env signal =
     Inr [[InlineKeyboardButton (emoji_chart @ '' Technical Analysis'')
             (''chart_'' @ symbol @ ''_'' @ timeframe),
           InlineKeyboardButton (emoji_robot @ '' Market Sentiment'')
             (''sentiment_'' @ symbol)],
          [InlineKeyboardButton (emoji_calendar @ '' Economic Calendar'')
             (''calendar_'' @ symbol)]]"
    using signal_keyboard_renders [OF sym tf, of env] by (simp add: py_format_def)
  show ?thesis
    using msg kb bot by (simp add: send_signal_message_call [OF msg kb])
qed

theorem signal_keyboard_layout_witness:
  "\<exists>message.
     snd (send_signal_message working_env ''123'' eurusd_signal ''Bullish'' fresh_world) =
       fresh_world\<lparr>tg_calls :=
         [SendMessage (PyStr ''123'') message (Some ''Markdown'')
            (Some [[InlineKeyboardButton (emoji_chart @ '' Technical Analysis'') ''chart_EURUSD_1h'',
                    InlineKeyboardButton (emoji_robot @ '' Market Sentiment'') ''sentiment_EURUSD''],
                   [InlineKeyboardButton (emoji_calendar @ '' Economic Calendar'')
                      ''calendar_EURUSD'']])]\<rparr>"
proof -
  have sym: "py_getitem eurusd_signal ''symbol'' = Inr (PyStr ''EURUSD'')"
    and tf: "py_getitem eurusd_signal ''timeframe'' = Inr (PyStr ''1h'')"
    and act: "py_getitem eurusd_signal ''action'' = Inr (PyStr ''BUY'')"
    and pri: "py_getitem eurusd_signal ''price'' = Inr (PyFloat 1221601398924247 (- 50))"
    and bot: "bot_present fresh_world"
    by (simp_all add: eurusd_signal_def fresh_world_def)
  from signal_keyboard_layout [OF sym tf act pri bot, of working_env "''Bullish''" "''123''"]
  show ?thesis
    by (auto simp: fresh_world_def)
qed

text \<open>
  C6. For a signal with its fields, \<open>process_signal\<close> returns normally with
  \<open>sent_to\<close> equal to the number of matched identifiers, and, the bot being set, the
  calls made on the bot are one \<open>send_message\<close> per matched identifier, in order,
  whatever Telegram answers to each of them. With no matched identifier no call is
  made and \<open>sent_to\<close> is 0.
\<close>

theorem process_signal_fan_out:
  assumes sym: "py_getitem signal ''symbol'' = Inr symbol"
    and act: "py_getitem signal ''action'' = Inr action"
    and pri: "py_getitem signal ''price'' = Inr price"
    and tf: "py_getitem signal ''timeframe'' = Inr timeframe"
  shows "\<exists>chat_ids sentiment message keyboard w'.
           match_subscribers env signal = Inr chat_ids
         \<and> signal_message env signal sentiment = Inr message
         \<and> signal_keyboard env signal = Inr keyboard
         \<and> process_signal env now signal w =
             (Inr (PyDict [(''status'', PyStr ''success''),
                           (''sent_to'', PyInt (int (length chat_ids))),
                           (''signal'', signal),
                           (''sentiment'', PyStr sentiment)]), w')
         \<and> tg_calls w' = tg_calls w @
             (if bot_present w
              then map (\<lambda>c. SendMessage (PyStr c) message (Some ''Markdown'') (Some keyboard)) chat_ids
              else [])"
proof -
  obtain chat_ids where m: "match_subscribers env signal = Inr chat_ids"
    using match_subscribers_total by blast
  obtain sentiment w1 where a: "analyze_sentiment env now symbol w = (Inr sentiment, w1)"
    using analyze_sentiment_total by blast
  have keep: "bot_present w1 = bot_present w" "tg_calls w1 = tg_calls w"
    using analyze_sentiment_keeps_bot [of env now symbol w] a by simp_all
  obtain message where msg: "signal_message env signal sentiment = Inr message"
    using signal_message_renders [OF sym act pri] by blast
  obtain keyboard where kb: "signal_keyboard env signal = Inr keyboard"
    using signal_keyboard_renders [OF sym tf] by blast
  obtain w' where s: "send_to_all env chat_ids signal sentiment w1 = (Inr (), w')"
    and calls: "tg_calls w' = tg_calls w1 @
               (if bot_present w1
                then map (\<lambda>c. SendMessage (PyStr c) message (Some ''Markdown'') (Some keyboard)) chat_ids
                else [])"
    using send_to_all_calls [OF msg kb, of chat_ids w1] by blast
  have p: "process_signal env now signal w =
          (Inr (PyDict [(''status'', PyStr ''success''),
                        (''sent_to'', PyInt (int (length chat_ids))),
                        (''signal'', signal),
                        (''sentiment'', PyStr sentiment)]), w')"
    by (simp add: process_signal_def m sym a s)
  have c: "tg_calls w' = tg_calls w @
             (if bot_present w
              then map (\<lambda>c. SendMessage (PyStr c) message (Some ''Markdown'') (Some keyboard)) chat_ids
              else [])"
    using calls keep by simp
  from m msg kb p c show ?thesis by blast
qed

lemma eurusd_signal_fields:
  "py_getitem eurusd_signal ''symbol'' = Inr (PyStr ''EURUSD'')"
  "py_getitem eurusd_signal ''action'' = Inr (PyStr ''BUY'')"
  "py_getitem eurusd_signal ''price'' = Inr (PyFloat 1221601398924247 (- 50))"
  "py_getitem eurusd_signal ''timeframe'' = Inr (PyStr ''1h'')"
  by (simp_all add: eurusd_signal_def)

theorem process_signal_fan_out_witness:
  "(\<exists>sentiment message keyboard w'.
      process_signal half_blocked_env 0 eurusd_signal fresh_world =
        (Inr (PyDict [(''status'', PyStr ''success''), (''sent_to'', PyInt 2),
                      (''signal'', eurusd_signal), (''sentiment'', PyStr sentiment)]), w')
    \<and> tg_calls w' =
        [SendMessage (PyStr ''123'') message (Some ''Markdown'') (Some keyboard),
         SendMessage (PyStr ''456'') message (Some ''Markdown'') (Some keyboard)])
   \<and> (\<exists>sentiment w'.
      process_signal no_subscribers_env 0 eurusd_signal fresh_world =
        (Inr (PyDict [(''status'', PyStr ''success''), (''sent_to'', PyInt 0),
                      (''signal'', eurusd_signal), (''sentiment'', PyStr sentiment)]), w')
    \<and> tg_calls w' = [])"
proof -
  have two: "match_subscribers half_blocked_env eurusd_signal = Inr [''123'', ''456'']"
    by (simp add: match_subscribers_def match_subscribers_body_def half_blocked_env_def
        working_env_def eurusd_signal_def py_format_def)
  have none: "match_subscribers no_subscribers_env eurusd_signal = Inr []"
    by (simp add: match_subscribers_def match_subscribers_body_def no_subscribers_env_def
        working_env_def eurusd_signal_def)
  have bot: "bot_present fresh_world" "tg_calls fresh_world = []"
    by (simp_all add: fresh_world_def)
  from process_signal_fan_out [OF eurusd_signal_fields, of half_blocked_env 0 fresh_world] two bot
  have first: "\<exists>sentiment message keyboard w'.
      process_signal half_blocked_env 0 eurusd_signal fresh_world =
        (Inr (PyDict [(''status'', PyStr ''success''), (''sent_to'', PyInt 2),
                      (''signal'', eurusd_signal), (''sentiment'', PyStr sentiment)]), w')
    \<and> tg_calls w' =
        [SendMessage (PyStr ''123'') message (Some ''Markdown'') (Some keyboard),
         SendMessage (PyStr ''456'') message (Some ''Markdown'') (Some keyboard)]"
    by auto
  from process_signal_fan_out [OF eurusd_signal_fields, of no_subscribers_env 0 fresh_world] none bot
  have second: "\<exists>sentiment w'.
      process_signal no_subscribers_env 0 eurusd_signal fresh_world =
        (Inr (PyDict [(''status'', PyStr ''success''), (''sent_to'', PyInt 0),
                      (''signal'', eurusd_signal), (''sentiment'', PyStr sentiment)]), w')
    \<and> tg_calls w' = []"
    by auto
  from first second show ?thesis by blast
qed

section \<open>Properties of the chart capture service\<close>

subsection \<open>Helper lemmas\<close>

lemma capture_attempt_appends:
  "snd (capture_attempt a symbol attempt m tr) = tr @ attempt_events a symbol"
  by (simp add: attempt_events_def capture_attempt_def setup_driver_def capture_steps_def
      driver_quit_def Let_def split: option.splits sum.splits)

lemma failed_attempt_flow:
  assumes "attempt_fails a"
  shows "fst (capture_attempt a symbol attempt m tr) =
           (if attempt < m - 1 then Continue else Return (None, False))"
  using assms
  by (auto simp: attempt_fails_def capture_attempt_def setup_driver_def capture_steps_def Let_def
      split: option.splits sum.splits prod.splits)

lemma attempt_events_launch: "count_list (attempt_events a symbol) Launch = 1"
  by (auto simp: attempt_events_def capture_attempt_def setup_driver_def capture_steps_def
      driver_quit_def Let_def split: option.splits sum.splits prod.splits)

lemma attempt_events_quit:
  "count_list (attempt_events a symbol) Quit = (if setup_succeeds a then 1 else 0)"
  by (auto simp: attempt_events_def capture_attempt_def setup_driver_def capture_steps_def
      setup_succeeds_def driver_quit_def Let_def split: option.splits sum.splits prod.splits)

lemma attempt_events_get:
  "Get url \<in> set (attempt_events a symbol) \<Longrightarrow> url = tradingview_url symbol"
  by (auto simp: attempt_events_def capture_attempt_def setup_driver_def capture_steps_def
      driver_quit_def Let_def split: option.splits sum.splits prod.splits if_splits)

text \<open>
  The loop over the attempts \<open>i\<close> to \<open>m - 1\<close> when each of them fails: every one is
  run, the last one returns.
\<close>

lemma capture_loop_all_fail:
  assumes "\<forall>attempt \<in> set [i..m - 1]. attempt_fails (browser env attempt)"
  shows "capture_loop env symbol m [i..m - 1] tr =
           ((None, False),
            tr @ concat (map (\<lambda>attempt. attempt_events (browser env attempt) symbol) [i..m - 1]))"
  using assms
proof (induction i "m - 1" arbitrary: tr rule: upto.induct)
  case (1 i)
  show ?case
  proof (cases "i \<le> m - 1")
    case False
    then show ?thesis by simp
  next
    case True
    then have unfold: "[i..m - 1] = i # [i + 1..m - 1]"
      by (simp add: upto_rec1)
    have fails: "attempt_fails (browser env i)"
      using "1.prems" True by simp
    have rest: "\<forall>attempt \<in> set [i + 1..m - 1]. attempt_fails (browser env attempt)"
      using "1.prems" by simp
    obtain f tr1 where att: "capture_attempt (browser env i) symbol i m tr = (f, tr1)"
      by (cases "capture_attempt (browser env i) symbol i m tr")
    have f: "f = (if i < m - 1 then Continue else Return (None, False))"
      using failed_attempt_flow [OF fails, of symbol i m tr] att by simp
    have tr1: "tr1 = tr @ attempt_events (browser env i) symbol"
      using capture_attempt_appends [of "browser env i" symbol i m tr] att by simp
    show ?thesis
    proof (cases "i < m - 1")
      case True
      with "1.hyps" [OF \<open>i \<le> m - 1\<close> rest, of tr1] att f tr1 unfold show ?thesis
        by simp
    next
      case False
      with \<open>i \<le> m - 1\<close> have "i = m - 1" by simp
      then have "[i + 1..m - 1] = []" by simp
      with att f tr1 unfold False show ?thesis by simp
    qed
  qed
qed

lemma capture_loop_gets:
  "\<exists>events. snd (capture_loop env symbol m xs tr) = tr @ events
      \<and> (\<forall>url. Get url \<in> set events \<longrightarrow> url = tradingview_url symbol)"
proof (induction xs arbitrary: tr)
  case Nil
  then show ?case by simp
next
  case (Cons x xs)
  obtain f tr1 where att: "capture_attempt (browser env x) symbol x m tr = (f, tr1)"
    by (cases "capture_attempt (browser env x) symbol x m tr")
  have tr1: "tr1 = tr @ attempt_events (browser env x) symbol"
    using capture_attempt_appends [of "browser env x" symbol x m tr] att by simp
  show ?case
  proof (cases f)
    case (Return r)
    with att tr1 show ?thesis
      by (auto dest: attempt_events_get)
  next
    case Continue
    from Cons.IH [of tr1] obtain events where
      ev: "snd (capture_loop env symbol m xs tr1) = tr1 @ events"
      and gets: "\<forall>url. Get url \<in> set events \<longrightarrow> url = tradingview_url symbol"
      by blast
    have "snd (capture_loop env symbol m (x # xs) tr)
            = tr @ (attempt_events (browser env x) symbol @ events)"
      using att Continue ev tr1 by simp
    moreover have "\<forall>url. Get url \<in> set (attempt_events (browser env x) symbol @ events)
                     \<longrightarrow> url = tradingview_url symbol"
      using gets by (auto dest: attempt_events_get)
    ultimately show ?thesis by blast
  qed
qed

lemma count_list_concat_map:
  "count_list (concat (map g xs)) y = (\<Sum>x\<leftarrow>xs. count_list (g x) y)"
  by (induction xs) simp_all

lemma sum_list_indicator:
  "(\<Sum>x\<leftarrow>xs. if P x then 1 else 0) = length (filter P xs)"
  by (induction xs) simp_all

lemma upto_0_1: "[0..1] = [0, 1::int]"
  by (simp add: upto.simps)

subsection \<open>Retries\<close>

text \<open>
  If every attempt of \<open>range(max_retries)\<close> fails, \<open>capture_tradingview_chart\<close>
  returns \<open>(None, False)\<close> without raising; the calls it makes on the browser are those
  of the attempts \<open>0\<close> to \<open>max_retries - 1\<close> one after the other, so the browser is
  launched once per attempt, and \<open>driver.quit\<close> is called once for each attempt whose
  \<open>setup_driver\<close> returned the driver.
\<close>

lemma all_attempts_fail_run:
  assumes "\<forall>attempt \<in> set [0..max_retries - 1]. attempt_fails (browser env attempt)"
  shows "\<exists>events.
           capture_tradingview_chart env symbol interval theme max_retries tr
             = (Inr (None, False), tr @ events)
         \<and> events = concat (map (\<lambda>attempt. attempt_events (browser env attempt) symbol)
                              [0..max_retries - 1])
         \<and> count_list events Launch = nat max_retries
         \<and> count_list events Quit =
             length (filter (\<lambda>attempt. setup_succeeds (browser env attempt))
                       [0..max_retries - 1])"
proof -
  let ?events = "concat (map (\<lambda>attempt. attempt_events (browser env attempt) symbol)
                           [0..max_retries - 1])"
  have run: "capture_tradingview_chart env symbol interval theme max_retries tr
               = (Inr (None, False), tr @ ?events)"
    by (simp add: capture_tradingview_chart_def capture_loop_all_fail [OF assms])
  have launches: "count_list ?events Launch = nat max_retries"
    by (simp add: count_list_concat_map attempt_events_launch sum_list_triv)
  have quits: "count_list ?events Quit =
                 length (filter (\<lambda>attempt. setup_succeeds (browser env attempt))
                           [0..max_retries - 1])"
    by (simp add: count_list_concat_map attempt_events_quit sum_list_indicator)
  from run launches quits show ?thesis by blast
qed

text \<open>
  C4. When every attempt fails, \<open>driver.quit\<close> is meant to run once for each attempt in
  which the browser was launched. \<open>setup_driver\<close> is called before the \<open>try\<close> whose
  \<open>finally\<close> block quits: when Chrome starts and \<open>set_window_size\<close> then raises, the
  driver is never handed to that block. With such a browser and \<open>max_retries = 2\<close> the
  capture returns \<open>(None, False)\<close> after two attempts, the browser has been launched
  twice, and \<open>driver.quit\<close> has not been called at all.
\<close>

theorem capture_leaves_browser_running:
  "capture_tradingview_chart leaking_chart_env ''BTCUSD'' ''1h'' ''dark'' 2 []
     = (Inr (None, False), [Launch, SetWindowSize, Launch, SetWindowSize])
   \<and> count_list (snd (capture_tradingview_chart leaking_chart_env ''BTCUSD'' ''1h'' ''dark'' 2 []))
        Launch = 2
   \<and> count_list (snd (capture_tradingview_chart leaking_chart_env ''BTCUSD'' ''1h'' ''dark'' 2 []))
        Quit = 0"
  by (simp add: capture_tradingview_chart_def upto_0_1 leaking_chart_env_def
      leaking_attempt_def timeout_attempt_def capture_attempt_def setup_driver_def)

subsection \<open>The parameters that are not used\<close>

text \<open>
  C10. Two captures that differ only in \<open>interval\<close> and \<open>theme\<close> give the same result
  and make the same calls on the browser, and so do two calls of \<open>get_chart\<close>; every
  page the capture loads is the TradingView URL of \<open>FX:\<close> + symbol.
\<close>

theorem capture_ignores_interval_and_theme:
  "capture_tradingview_chart env symbol interval theme max_retries tr
     = capture_tradingview_chart env symbol interval' theme' max_retries tr
   \<and> get_chart env symbol interval theme tr = get_chart env symbol interval' theme' tr
   \<and> (\<exists>events. snd (capture_tradingview_chart env symbol interval theme max_retries tr)
                  = tr @ events
         \<and> (\<forall>url. Get url \<in> set events \<longrightarrow>
               url = ''https://www.tradingview.com/chart/?symbol='' @ quote (''FX:'' @ symbol)))"
proof -
  have same: "capture_tradingview_chart env symbol interval theme n tr
                = capture_tradingview_chart env symbol interval' theme' n tr" for n
    by (simp add: capture_tradingview_chart_def)
  have chart: "get_chart env symbol interval theme tr = get_chart env symbol interval' theme' tr"
    by (simp add: get_chart_def get_chart_body_def same)
  have "snd (capture_tradingview_chart env symbol interval theme max_retries tr)
          = snd (capture_loop env symbol max_retries [0..max_retries - 1] tr)"
    by (simp add: capture_tradingview_chart_def split: prod.splits)
  with capture_loop_gets [of env symbol max_retries "[0..max_retries - 1]" tr]
  have urls: "\<exists>events. snd (capture_tradingview_chart env symbol interval theme max_retries tr)
                  = tr @ events
         \<and> (\<forall>url. Get url \<in> set events \<longrightarrow>
               url = ''https://www.tradingview.com/chart/?symbol='' @ quote (''FX:'' @ symbol))"
    by (simp add: tradingview_url_def)
  from same chart urls show ?thesis by blast
qed

theorem capture_ignores_interval_and_theme_witness:
  "capture_tradingview_chart failing_chart_env ''BTCUSD'' ''1h'' ''dark'' 2 []
     = capture_tradingview_chart failing_chart_env ''BTCUSD'' ''15m'' ''light'' 2 []
   \<and> Get ''https://www.tradingview.com/chart/?symbol=FX%3ABTCUSD''
       \<in> set (snd (capture_tradingview_chart failing_chart_env ''BTCUSD'' ''1h'' ''dark'' 2 []))
   \<and> ''https://www.tradingview.com/chart/?symbol=FX%3ABTCUSD''
       = ''https://www.tradingview.com/chart/?symbol='' @ quote (''FX:'' @ ''BTCUSD'')"
proof -
  have run: "snd (capture_tradingview_chart failing_chart_env ''BTCUSD'' ''1h'' ''dark'' 2 [])
               = [Launch, Launch, SetWindowSize, SetPageLoadTimeout,
                  Get ''https://www.tradingview.com/chart/?symbol=FX%3ABTCUSD'', WaitChart, Quit]"
    by (simp add: capture_tradingview_chart_def upto_0_1 failing_chart_env_def
        capture_attempt_def setup_driver_def capture_steps_def driver_quit_def
        no_browser_attempt_def timeout_attempt_def tradingview_url_def quote_def
        quote_byte_def quote_safe_def hex_digit_def)
  from capture_ignores_interval_and_theme
         [of failing_chart_env "''BTCUSD''" "''1h''" "''dark''" 2 "[]" "''15m''" "''light''"]
  obtain events where
    same: "capture_tradingview_chart failing_chart_env ''BTCUSD'' ''1h'' ''dark'' 2 []
             = capture_tradingview_chart failing_chart_env ''BTCUSD'' ''15m'' ''light'' 2 []"
    and ev: "snd (capture_tradingview_chart failing_chart_env ''BTCUSD'' ''1h'' ''dark'' 2 [])
               = [] @ events"
    and urls: "\<forall>url. Get url \<in> set events \<longrightarrow>
                 url = ''https://www.tradingview.com/chart/?symbol='' @ quote (''FX:'' @ ''BTCUSD'')"
    by blast
  have loaded: "Get ''https://www.tradingview.com/chart/?symbol=FX%3ABTCUSD'' \<in> set events"
    using run ev by simp
  with urls have "''https://www.tradingview.com/chart/?symbol=FX%3ABTCUSD''
       = ''https://www.tradingview.com/chart/?symbol='' @ quote (''FX:'' @ ''BTCUSD'')"
    by blast
  with same loaded ev show ?thesis by simp
qed

end
